theory Spec2Isabelle
  imports Main
begin

section \<open>Exceptions and the error monad\<close>

text \<open>
  The Python exceptions that the modelled code can raise.  A function that may raise
  returns \<open>error + 'a\<close>, the exception on the left.
\<close>

datatype error =
    TypeError
  | NameError
  | IndexError
  | ZeroDivisionError
  | ValueError
  | NetworkXError
  | Exception string

definition bindE :: "error + 'a \<Rightarrow> ('a \<Rightarrow> error + 'b) \<Rightarrow> error + 'b" where
  "bindE m f = (case m of Inl e \<Rightarrow> Inl e | Inr x \<Rightarrow> f x)"

text \<open>\<open>range(n)\<close> of Python 2: the list \<open>0, ..., n - 1\<close>, empty for \<open>n \<le> 0\<close>.\<close>

definition py_range :: "int \<Rightarrow> int list" where
  "py_range n = [0..n - 1]"

section \<open>Nodes and their integer identifiers\<close>

text \<open>A node in the form \<open>(index, tau)\<close> of the source: variable index and time lag.\<close>

type_synonym nodedict = "int \<times> int"

text \<open>
  Modelled from the spec: \<open>get_node_number\<close> is imported from
  \<open>..utils.causal_network\<close>, which is not among the source files.  The spec gives
  \<open>encode(variableIndex, timeLag, ndim) = timeLag * ndim + variableIndex\<close>; every call in
  \<open>construct_network.py\<close> passes \<open>0\<close> as the third argument, which the spec's encoding
  does not use.
\<close>

definition get_node_number :: "nodedict \<Rightarrow> int \<Rightarrow> int \<Rightarrow> int" where
  "get_node_number nodedict ndim lag = snd nodedict * ndim + fst nodedict"

section \<open>The time series graph\<close>

text \<open>
  The \<open>networkx.DiGraph\<close> of the source with its two graph attributes \<open>ndim\<close> and
  \<open>tau\<close>.  Nodes and edges are kept in insertion order without repetition.
\<close>

record graph =
  g_nodes :: "int list"
  g_edges :: "(int \<times> int) list"
  g_ndim :: int
  g_tau :: int

text \<open>\<open>nx.DiGraph(ndim=ndim, tau=0)\<close>\<close>

definition DiGraph :: "int \<Rightarrow> int \<Rightarrow> graph" where
  "DiGraph ndim tau = \<lparr>g_nodes = [], g_edges = [], g_ndim = ndim, g_tau = tau\<rparr>"

text \<open>\<open>g.add_node(n)\<close>: nothing happens when the node is already there.\<close>

definition add_node :: "graph \<Rightarrow> int \<Rightarrow> graph" where
  "add_node g n = (if n \<in> set (g_nodes g) then g else g\<lparr>g_nodes := g_nodes g @ [n]\<rparr>)"

text \<open>\<open>g.add_edge(u, v)\<close>: both end points are added as nodes when they are missing.\<close>

definition add_edge :: "graph \<Rightarrow> int \<Rightarrow> int \<Rightarrow> graph" where
  "add_edge g u v =
     (let g1 = add_node (add_node g u) v
      in if (u, v) \<in> set (g_edges g1) then g1 else g1\<lparr>g_edges := g_edges g1 @ [(u, v)]\<rparr>)"

text \<open>\<open>g.remove_edge(u, v)\<close> raises \<open>NetworkXError\<close> when there is no such edge.\<close>

definition remove_edge :: "graph \<Rightarrow> int \<Rightarrow> int \<Rightarrow> error + graph" where
  "remove_edge g u v =
     (if (u, v) \<in> set (g_edges g) then Inr (g\<lparr>g_edges := removeAll (u, v) (g_edges g)\<rparr>)
      else Inl NetworkXError)"

text \<open>\<open>g.predecessors(n)\<close> raises \<open>NetworkXError\<close> when \<open>n\<close> is not a node.\<close>

definition predecessors :: "graph \<Rightarrow> int \<Rightarrow> error + int list" where
  "predecessors g n =
     (if n \<in> set (g_nodes g) then Inr (map fst (filter (\<lambda>e. snd e = n) (g_edges g)))
      else Inl NetworkXError)"

text \<open>
  \<open>g.predecessors(g, n)\<close>, as \<open>isConvergence\<close> writes the call: the method takes the node
  as its only argument, so a call with two arguments raises \<open>TypeError\<close> before the
  method body runs.
\<close>

definition predecessors_two_args :: "graph \<Rightarrow> graph \<Rightarrow> int \<Rightarrow> error + int list" where
  "predecessors_two_args g g' n = Inl TypeError"

definition successors :: "graph \<Rightarrow> int \<Rightarrow> int list" where
  "successors g n = map snd (filter (\<lambda>e. fst e = n) (g_edges g))"

section \<open>Decoding node identifiers\<close>

text \<open>
  \<open>get_nodes_dict\<close>: \<open>[(node % ndim, node / ndim) for node in nodes_number]\<close>.  The
  source is Python 2, where \<open>/\<close> on integers is floor division; both operators raise
  \<open>ZeroDivisionError\<close> for \<open>ndim = 0\<close>, which the comprehension meets at its first
  element.
\<close>

definition get_nodes_dict :: "graph \<Rightarrow> int list \<Rightarrow> error + nodedict list" where
  "get_nodes_dict g nodes_number =
     (let ndim = g_ndim g
      in if ndim = 0 \<and> nodes_number \<noteq> [] then Inl ZeroDivisionError
         else Inr (map (\<lambda>node. (node mod ndim, node div ndim)) nodes_number))"

section \<open>The constructor of class \<open>info\<close>\<close>

text \<open>
  \<open>pdfs\<close> is a numpy array: its shape and its (floating point) contents, which stay
  abstract.  \<open>np.size(pdfs.shape)\<close> is the number of axes.
\<close>

record 'p ndarray =
  shape :: "nat list"
  contents :: 'p

record ('b, 'r) info =
  self_base :: 'b
  self_ndim :: nat
  self_allInfo :: 'r

text \<open>Lines 33 to 37 of \<open>info.__init__\<close>: the check on the number of axes.\<close>

definition info_check_ndim :: "'p ndarray \<Rightarrow> error + nat" where
  "info_check_ndim pdfs =
     (let ndim = length (shape pdfs)
      in if ndim > 3 \<or> ndim < 1
         then Inl (Exception ''The number of variables should be less than or equal to 3.'')
         else Inr ndim)"

text \<open>
  The whole constructor.  The entropy computations of the three cases and the assembly
  into a series are floating point code; they are the parameter \<open>computeInfo\<close>, which
  gets the number of axes, the array, the base and the significance flag and may raise.
\<close>

definition info_init ::
  "(nat \<Rightarrow> 'p ndarray \<Rightarrow> 'b \<Rightarrow> bool \<Rightarrow> error + 'r) \<Rightarrow> 'p ndarray \<Rightarrow> 'b \<Rightarrow> bool
     \<Rightarrow> error + ('b, 'r) info" where
  "info_init computeInfo pdfs b st =
     bindE (info_check_ndim pdfs) (\<lambda>n.
       bindE (computeInfo n pdfs b st) (\<lambda>r.
         Inr \<lparr>self_base = b, self_ndim = n, self_allInfo = r\<rparr>))"

section \<open>Python operators on the operand types the source gives them\<close>

text \<open>
  Sets of node numbers (\<open>set(...)\<close>) are lists without repetition, in iteration order:
  \<open>set(xs)\<close> is \<open>remdups xs\<close>, \<open>s.discard(x)\<close> is \<open>removeAll x s\<close>, \<open>len(s)\<close> is
  \<open>length s\<close>, and \<open>s1 != s2\<close> compares the elements, \<open>set s1 \<noteq> set s2\<close>.

  \<open>xs | ys\<close> with two lists: \<open>list\<close> has no \<open>__or__\<close>, so Python raises
  \<open>TypeError\<close> (unsupported operand types).
\<close>

definition list_or_list :: "'a list \<Rightarrow> 'a list \<Rightarrow> error + 'a list" where
  "list_or_list xs ys = Inl TypeError"

text \<open>
  \<open>xs - s\<close> with a list on the left and a set on the right: \<open>list\<close> has no
  \<open>__sub__\<close> and the set's reflected operator accepts sets only, so Python raises
  \<open>TypeError\<close>.
\<close>

definition list_minus_set :: "'a list \<Rightarrow> 'a list \<Rightarrow> error + 'a list" where
  "list_minus_set xs s = Inl TypeError"

text \<open>
  The name \<open>i\<close> in the last loop of \<open>findCausalRelationships\<close>: it is bound neither in
  the function nor in the module, so reading it raises \<open>NameError\<close>.
\<close>

definition unbound_name_i :: "error + int" where
  "unbound_name_i = Inl NameError"

text \<open>
  Modelled from the spec: \<open>intersect\<close> is imported from \<open>..utils.causal_network\<close>,
  which is not among the source files.  The spec's candidate set is the intersection of
  the path nodes with the current parents of the target.
\<close>

definition intersect :: "int list \<Rightarrow> int list \<Rightarrow> int list" where
  "intersect xs ys = filter (\<lambda>x. x \<in> set ys) xs"

section \<open>Simple paths\<close>

text \<open>
  \<open>nx.all_simple_paths(g, source, target)\<close>: a depth first search from the source that
  never enters a node twice and yields the visited nodes each time it meets the target.
  It raises \<open>NetworkXError\<close> when one of the two nodes is not in the graph.  The first
  argument of \<open>simple_paths_from\<close> bounds the depth by the number of nodes.
\<close>

fun simple_paths_from :: "nat \<Rightarrow> graph \<Rightarrow> int list \<Rightarrow> int \<Rightarrow> int list list" where
  "simple_paths_from 0 g visited target = []"
| "simple_paths_from (Suc k) g visited target =
     concat (map (\<lambda>child.
                    if child = target then [visited @ [target]]
                    else if child \<in> set visited then []
                    else simple_paths_from k g (visited @ [child]) target)
                 (successors g (last visited)))"

definition all_simple_paths :: "graph \<Rightarrow> int \<Rightarrow> int \<Rightarrow> error + int list list" where
  "all_simple_paths g source target =
     (if source \<notin> set (g_nodes g) \<or> target \<notin> set (g_nodes g) then Inl NetworkXError
      else Inr (simple_paths_from (length (g_nodes g)) g [source] target))"

text \<open>\<open>get_causal_paths\<close>: the nodes of all the paths, flattened into one list.\<close>

definition get_causal_paths :: "graph \<Rightarrow> int \<Rightarrow> int \<Rightarrow> error + int list" where
  "get_causal_paths g snode tnode =
     bindE (all_simple_paths g snode tnode) (\<lambda>pathall. Inr (concat pathall))"

text \<open>
  What the claims call a directed simple path from \<open>s\<close> to \<open>t\<close>: at least one edge,
  consecutive nodes joined by edges of the graph, no node twice.
\<close>

definition simple_path :: "graph \<Rightarrow> int \<Rightarrow> int \<Rightarrow> int list \<Rightarrow> bool" where
  "simple_path g s t p \<longleftrightarrow>
     2 \<le> length p \<and> hd p = s \<and> last p = t \<and> distinct p
     \<and> successively (\<lambda>u v. (u, v) \<in> set (g_edges g)) p"

section \<open>Parent proposal\<close>

text \<open>\<open>temporallyMoveNodes\<close>: every node number moved by \<open>lag\<close> time steps, as a list.\<close>

definition temporallyMoveNodes :: "graph \<Rightarrow> int list \<Rightarrow> int \<Rightarrow> int list" where
  "temporallyMoveNodes g nodes lag = map (\<lambda>node. node + lag * g_ndim g) nodes"

text \<open>
  \<open>getPreliminaryParents\<close>.  The graph is changed in place (\<open>g.add_node\<close>) before
  anything can fail, so the function returns the graph as it leaves it together with its
  result or exception.  \<open>ppaset\<close> starts as the list \<open>[]\<close> and \<open>temporallyMoveNodes\<close>
  returns a list, so \<open>ppaset | ppaset1\<close> is \<open>list_or_list\<close>; the second union is with
  the list \<open>range(ndim)\<close>.
\<close>

definition getPreliminaryParents :: "graph \<Rightarrow> int \<Rightarrow> graph \<times> (error + int list)" where
  "getPreliminaryParents g j =
     (let tau = g_tau g; ndim = g_ndim g;
          nodedict_now = (j, tau + 1);
          nodedict_early = (j, tau);
          node_number_n = get_node_number nodedict_now ndim 0;
          node_number_e = get_node_number nodedict_early ndim 0;
          g1 = add_node g node_number_n;
          ppaset = []
      in (g1,
          bindE (predecessors g1 node_number_e) (\<lambda>ps.
            let ppaset1 = temporallyMoveNodes g1 (remdups ps) 1
            in bindE (list_or_list ppaset ppaset1) (\<lambda>ppaset.
                 list_or_list ppaset (py_range ndim)))))"

text \<open>\<open>updateGraphByParents\<close>: an edge from every proposed parent to the node.\<close>

definition updateGraphByParents :: "graph \<Rightarrow> int list \<Rightarrow> nodedict \<Rightarrow> graph" where
  "updateGraphByParents g paset nodedict =
     (let ndim = g_ndim g;
          node_number = get_node_number nodedict ndim 0
      in fold (\<lambda>pa g'. add_edge g' pa node_number) paset g)"

section \<open>Pruning of spurious parents\<close>

text \<open>
  The independence tests are not defined in the source files; they are parameters:
  \<open>indep a b data\<close> for \<open>independence(a, b, data)\<close> and \<open>cindep a b data c\<close> for
  \<open>conditionalIndependence(a, b, data=data, conditionset=c)\<close>.  The source passes
  either a collection of decoded nodes or a single decoded node as condition set.
\<close>

datatype conditionset = CondNodes "nodedict list" | CondNode nodedict

type_synonym 'p independence = "nodedict \<Rightarrow> nodedict \<Rightarrow> 'p ndarray \<Rightarrow> bool"
type_synonym 'p conditionalIndependence =
  "nodedict \<Rightarrow> nodedict \<Rightarrow> 'p ndarray \<Rightarrow> conditionset \<Rightarrow> bool"

text \<open>
  Lines 164 to 167: the anchor is dropped from the parents when it is independent of
  the node.  The state is the graph with the set \<open>ppaset\<close>.
\<close>

definition excludeIndependent ::
  "'p independence \<Rightarrow> 'p ndarray \<Rightarrow> nodedict \<Rightarrow> nodedict \<Rightarrow> int \<Rightarrow> int
     \<Rightarrow> graph \<times> int list \<Rightarrow> error + graph \<times> int list" where
  "excludeIndependent indep data nodedict_p nodedict node_number_p node_number s =
     (case s of (g, ppaset) \<Rightarrow>
        if indep nodedict_p nodedict data
        then bindE (remove_edge g node_number_p node_number) (\<lambda>g'.
               Inr (g', removeAll node_number_p ppaset))
        else Inr (g, ppaset))"

text \<open>
  Lines 174 to 180: the anchor is dropped when other parents on its paths explain the
  dependency.  The condition set is written \<open>paseti_dict - {nodedict_p}\<close>, a list minus
  a set.
\<close>

definition excludeMediated ::
  "'p conditionalIndependence \<Rightarrow> 'p ndarray \<Rightarrow> nodedict \<Rightarrow> nodedict \<Rightarrow> int \<Rightarrow> int
     \<Rightarrow> nodedict list \<Rightarrow> graph \<times> int list \<times> int list \<Rightarrow> error + graph \<times> int list \<times> int list" where
  "excludeMediated cindep data nodedict_p nodedict node_number_p node_number paseti_dict s =
     (case s of (g, ppaset, paseti) \<Rightarrow>
        if node_number_p \<in> set paseti \<and> length paseti > 1
        then bindE (list_minus_set paseti_dict [nodedict_p]) (\<lambda>cs.
               if cindep nodedict_p nodedict data (CondNodes cs)
               then bindE (remove_edge g node_number_p node_number) (\<lambda>g'.
                      Inr (g', removeAll node_number_p ppaset, removeAll node_number_p paseti))
               else Inr (g, ppaset, paseti))
        else Inr (g, ppaset, paseti))"

text \<open>
  Lines 184 to 195: the loop over the other parents on the paths, each dropped when the
  anchor as common driver explains its link, or, in deep mode, when the other parents do.
\<close>

fun excludeCommonDriver ::
  "'p conditionalIndependence \<Rightarrow> 'p ndarray \<Rightarrow> bool \<Rightarrow> nodedict \<Rightarrow> nodedict \<Rightarrow> int
     \<Rightarrow> nodedict list \<Rightarrow> int list \<Rightarrow> graph \<times> int list \<times> int list
     \<Rightarrow> error + graph \<times> int list \<times> int list" where
  "excludeCommonDriver cindep data deep nodedict_p nodedict node_number paseti_dict [] s = Inr s"
| "excludeCommonDriver cindep data deep nodedict_p nodedict node_number paseti_dict (pa # pas) s =
     (case s of (g, ppaset, paseti) \<Rightarrow>
        bindE (get_nodes_dict g [pa]) (\<lambda>ds.
          case ds of
            [] \<Rightarrow> Inl IndexError
          | pa_dict # _ \<Rightarrow>
              if cindep pa_dict nodedict data (CondNode nodedict_p)
              then bindE (remove_edge g pa node_number) (\<lambda>g'.
                     excludeCommonDriver cindep data deep nodedict_p nodedict node_number
                       paseti_dict pas (g', removeAll pa ppaset, removeAll pa paseti))
              else if deep
              then bindE (list_minus_set paseti_dict [nodedict_p]) (\<lambda>cs.
                     if cindep pa_dict nodedict data (CondNodes cs)
                     then bindE (remove_edge g pa node_number) (\<lambda>g'.
                            excludeCommonDriver cindep data deep nodedict_p nodedict node_number
                              paseti_dict pas (g', removeAll pa ppaset, removeAll pa paseti))
                     else excludeCommonDriver cindep data deep nodedict_p nodedict node_number
                            paseti_dict pas (g, ppaset, paseti))
              else excludeCommonDriver cindep data deep nodedict_p nodedict node_number
                     paseti_dict pas (g, ppaset, paseti)))"

text \<open>
  Lines 169 to 195, what follows the independence test for one anchor: the path nodes,
  their intersection with the parents, and the two conditional exclusions.
\<close>

definition excludeAlongPaths ::
  "'p conditionalIndependence \<Rightarrow> 'p ndarray \<Rightarrow> bool \<Rightarrow> nodedict \<Rightarrow> nodedict \<Rightarrow> int \<Rightarrow> int
     \<Rightarrow> graph \<times> int list \<Rightarrow> error + graph \<times> int list" where
  "excludeAlongPaths cindep data deep nodedict_p nodedict node_number_p node_number s =
     (case s of (g, ppaset) \<Rightarrow>
        bindE (get_causal_paths g node_number_p node_number) (\<lambda>nodes_in_paths.
          let paseti = remdups (intersect nodes_in_paths ppaset)
          in bindE (get_nodes_dict g paseti) (\<lambda>paseti_dict.
               bindE (excludeMediated cindep data nodedict_p nodedict node_number_p node_number
                        paseti_dict (g, ppaset, paseti)) (\<lambda>(g2, ppaset2, paseti2).
                 if length ppaset2 > 1
                 then bindE (excludeCommonDriver cindep data deep nodedict_p nodedict node_number
                               paseti_dict (removeAll node_number_p paseti2) (g2, ppaset2, paseti2))
                        (\<lambda>(g3, ppaset3, paseti3). Inr (g3, ppaset3))
                 else Inr (g2, ppaset2)))))"

text \<open>The body of the loop over the anchors \<open>i\<close>, lines 160 to 195.\<close>

definition excludeForAnchor ::
  "'p independence \<Rightarrow> 'p conditionalIndependence \<Rightarrow> 'p ndarray \<Rightarrow> bool \<Rightarrow> nodedict \<Rightarrow> int
     \<Rightarrow> int \<Rightarrow> graph \<times> int list \<Rightarrow> error + graph \<times> int list" where
  "excludeForAnchor indep cindep data deep nodedict node_number i s =
     (let ndim = g_ndim (fst s);
          nodedict_p = (i, 0);
          node_number_p = get_node_number nodedict_p ndim 0
      in bindE (excludeIndependent indep data nodedict_p nodedict node_number_p node_number s)
           (excludeAlongPaths cindep data deep nodedict_p nodedict node_number_p node_number))"

fun excludeForAnchors ::
  "'p independence \<Rightarrow> 'p conditionalIndependence \<Rightarrow> 'p ndarray \<Rightarrow> bool \<Rightarrow> nodedict \<Rightarrow> int
     \<Rightarrow> int list \<Rightarrow> graph \<times> int list \<Rightarrow> error + graph \<times> int list" where
  "excludeForAnchors indep cindep data deep nodedict node_number [] s = Inr s"
| "excludeForAnchors indep cindep data deep nodedict node_number (i # is) s =
     bindE (excludeForAnchor indep cindep data deep nodedict node_number i s)
       (excludeForAnchors indep cindep data deep nodedict node_number is)"

text \<open>\<open>excludeSpuriousParents\<close>\<close>

definition excludeSpuriousParents ::
  "'p independence \<Rightarrow> 'p conditionalIndependence \<Rightarrow> graph \<Rightarrow> 'p ndarray \<Rightarrow> nodedict \<Rightarrow> bool
     \<Rightarrow> error + graph" where
  "excludeSpuriousParents indep cindep g data nodedict deep =
     (let ndim = g_ndim g;
          node_number = get_node_number nodedict ndim 0
      in bindE (predecessors g node_number) (\<lambda>ps.
           bindE (excludeForAnchors indep cindep data deep nodedict node_number
                    (py_range ndim) (g, remdups ps))
             (\<lambda>(g', ppaset). Inr g')))"

section \<open>Convergence check\<close>

text \<open>
  The two nested loops of \<open>isConvergence\<close>.  The result \<open>Inr False\<close> is the
  \<open>return False\<close> inside the loops, \<open>Inr True\<close> a loop that ran to its end.  The loop
  variable \<open>i\<close> does not occur in the body.
\<close>

fun compareParents :: "graph \<Rightarrow> int \<Rightarrow> int \<Rightarrow> int list \<Rightarrow> error + bool" where
  "compareParents g tau dtau [] = Inr True"
| "compareParents g tau dtau (j # js) =
     (let ndim = g_ndim g;
          node1_dict = (j, tau - dtau);
          node2_dict = (j, tau - dtau - 1);
          node_number_1 = get_node_number node1_dict ndim 0;
          node_number_2 = get_node_number node2_dict ndim 0
      in bindE (predecessors_two_args g g node_number_1) (\<lambda>ps1.
           bindE (predecessors_two_args g g node_number_2) (\<lambda>ps2.
             let paset1 = remdups ps1; paset2 = remdups ps2
             in if set paset1 \<noteq> set paset2 then Inr False
                else compareParents g tau dtau js)))"

fun compareWindow :: "graph \<Rightarrow> int \<Rightarrow> int \<Rightarrow> int list \<Rightarrow> error + bool" where
  "compareWindow g tau dtau [] = Inr True"
| "compareWindow g tau dtau (i # is) =
     bindE (compareParents g tau dtau (py_range (g_ndim g))) (\<lambda>same.
       if same then compareWindow g tau dtau is else Inr False)"

definition isConvergence :: "graph \<Rightarrow> int \<Rightarrow> int \<Rightarrow> int \<Rightarrow> error + bool" where
  "isConvergence g taumin taumax dtau =
     (let tau = g_tau g; ndim = g_ndim g;
          convergence = True
      in if tau < taumin then Inr False
         else if tau > taumax then Inr True
         else if tau \<le> dtau then Inr False
         else bindE (compareWindow g tau dtau (py_range (dtau - 1))) (\<lambda>same.
                if same then Inr convergence else Inr False))"

section \<open>The main function\<close>

text \<open>
  Lines 34 to 42 of \<open>findCausalRelationships\<close>: the graph with the nodes of time
  lag 0.
\<close>

definition initialGraph :: "int \<Rightarrow> graph" where
  "initialGraph ndim =
     (let g = DiGraph ndim 0;
          tau = 0
      in fold (\<lambda>j g'. add_node g' (get_node_number (j, tau) ndim 0)) (py_range ndim) g)"

text \<open>Lines 51 to 54: the loop that proposes the parents of every variable at \<open>tau\<close>.\<close>

fun proposeParents :: "graph \<Rightarrow> int \<Rightarrow> int list \<Rightarrow> error + graph" where
  "proposeParents g tau [] = Inr g"
| "proposeParents g tau (j # js) =
     (case getPreliminaryParents g j of
        (g1, r) \<Rightarrow> bindE r (\<lambda>ppaset.
          proposeParents (updateGraphByParents g1 ppaset (j, tau)) tau js))"

text \<open>Lines 60 to 62: the loop that prunes the parents of every variable at \<open>tau\<close>.\<close>

fun excludeParents ::
  "'p independence \<Rightarrow> 'p conditionalIndependence \<Rightarrow> 'p ndarray \<Rightarrow> bool \<Rightarrow> graph \<Rightarrow> int
     \<Rightarrow> int list \<Rightarrow> error + graph" where
  "excludeParents indep cindep data deep g tau [] = Inr g"
| "excludeParents indep cindep data deep g tau (j # js) =
     bindE (excludeSpuriousParents indep cindep g data (j, tau) deep) (\<lambda>g'.
       excludeParents indep cindep data deep g' tau js)"

text \<open>
  Lines 49 to 62, the body of the \<open>while\<close> loop after \<open>tau += 1\<close>; \<open>tau\<close> is the
  incremented lag, stored in the graph between the two loops.
\<close>

definition expandLag ::
  "'p independence \<Rightarrow> 'p conditionalIndependence \<Rightarrow> 'p ndarray \<Rightarrow> bool \<Rightarrow> int \<Rightarrow> graph \<Rightarrow> int
     \<Rightarrow> error + graph" where
  "expandLag indep cindep data deep ndim g tau =
     bindE (proposeParents g tau (py_range ndim)) (\<lambda>g1.
       excludeParents indep cindep data deep (g1\<lparr>g_tau := tau\<rparr>) tau (py_range ndim))"

text \<open>
  Modelled from the spec: \<open>getParents\<close> is called in the last loop but defined in none
  of the source files.  The spec reads off the parent set of the node and decodes each
  parent identifier into \<open>(variableIndex, timeLag)\<close> form.
\<close>

definition getParents :: "graph \<Rightarrow> nodedict \<Rightarrow> error + nodedict list" where
  "getParents g nodedict =
     bindE (predecessors g (get_node_number nodedict (g_ndim g) 0)) (\<lambda>ps.
       get_nodes_dict g (remdups ps))"

text \<open>
  Lines 65 to 67: \<open>causalDict[i] = getParents(g, (j, tau))\<close> for every \<open>j\<close>.  The right
  hand side is evaluated first, then the key \<open>i\<close>.
\<close>

fun assembleCausalDict ::
  "graph \<Rightarrow> int \<Rightarrow> int list \<Rightarrow> (int \<rightharpoonup> nodedict list) \<Rightarrow> error + (int \<rightharpoonup> nodedict list)" where
  "assembleCausalDict g tau [] causalDict = Inr causalDict"
| "assembleCausalDict g tau (j # js) causalDict =
     bindE (getParents g (j, tau)) (\<lambda>parents.
       bindE unbound_name_i (\<lambda>i.
         assembleCausalDict g tau js (causalDict(i \<mapsto> parents))))"

section \<open>Steps of the graph\<close>

text \<open>
  The changes that \<open>findCausalRelationships\<close> makes to the graph once the nodes of lag 0
  are there: \<open>getPreliminaryParents\<close> registers the node of a variable at the next lag,
  \<open>updateGraphByParents\<close> adds the edges into a node of lag \<open>tau \<ge> 1\<close> (the loop
  increments \<open>tau\<close> before it proposes parents), the lag attribute is stored, and
  \<open>excludeSpuriousParents\<close> returns a pruned graph.
\<close>

inductive graphStep ::
  "'p independence \<Rightarrow> 'p conditionalIndependence \<Rightarrow> 'p ndarray \<Rightarrow> bool \<Rightarrow> graph \<Rightarrow> graph \<Rightarrow> bool"
  for indep cindep data deep where
  register: "0 \<le> j \<Longrightarrow> j < g_ndim g
     \<Longrightarrow> graphStep indep cindep data deep g (fst (getPreliminaryParents g j))"
| propose: "0 \<le> j \<Longrightarrow> j < g_ndim g \<Longrightarrow> 1 \<le> tau
     \<Longrightarrow> graphStep indep cindep data deep g (updateGraphByParents g paset (j, tau))"
| advance: "graphStep indep cindep data deep g (g\<lparr>g_tau := tau\<rparr>)"
| prune: "excludeSpuriousParents indep cindep g data nodedict deep = Inr g'
     \<Longrightarrow> graphStep indep cindep data deep g g'"

text \<open>The nodes of time lag 0, the lag being the one \<open>get_nodes_dict\<close> decodes.\<close>

definition anchors :: "graph \<Rightarrow> int set" where
  "anchors g = {n \<in> set (g_nodes g). n div g_ndim g = 0}"

text \<open>
  The invariant of the steps: the graph is one of \<open>nd\<close> variables, the node numbers
  \<open>0, ..., nd - 1\<close> of lag 0 are nodes, and no edge ends in one of them.
\<close>

definition anchored :: "int \<Rightarrow> graph \<Rightarrow> bool" where
  "anchored nd g \<longleftrightarrow>
     g_ndim g = nd \<and> {0..nd - 1} \<subseteq> set (g_nodes g)
     \<and> (\<forall>e \<in> set (g_edges g). snd e < 0 \<or> nd \<le> snd e)"

section \<open>Example graphs\<close>

text \<open>
  One variable, three lags, nothing pruned: the node of each lag has the shifted parents
  of the lag before and the node of lag 0.
\<close>

definition graph_lag3 :: graph where
  "graph_lag3 = \<lparr>g_nodes = [0, 1, 2, 3],
                  g_edges = [(0, 1), (1, 2), (0, 2), (2, 3), (1, 3), (0, 3)],
                  g_ndim = 1, g_tau = 3\<rparr>"

text \<open>One variable after the proposal of lag 1: the node of lag 0 is the parent.\<close>

definition graph_lag1 :: graph where
  "graph_lag1 = \<lparr>g_nodes = [0, 1], g_edges = [(0, 1)], g_ndim = 1, g_tau = 1\<rparr>"

text \<open>Two variables after the proposal of lag 1: both anchors are parents of both nodes.\<close>

definition graph_proposed :: graph where
  "graph_proposed = \<lparr>g_nodes = [0, 1, 2, 3], g_edges = [(0, 2), (1, 2), (0, 3), (1, 3)],
                      g_ndim = 2, g_tau = 1\<rparr>"

section \<open>The main loop and its termination\<close>

text \<open>
  Pruning only takes edges away: \<open>pruned g g'\<close> says that \<open>g'\<close> has the nodes and the
  attributes of \<open>g\<close> and no edge that \<open>g\<close> lacks.  The facts below show it for every
  step of \<open>excludeSpuriousParents\<close>; the termination of the main loop rests on them.
\<close>

definition pruned :: "graph \<Rightarrow> graph \<Rightarrow> bool" where
  "pruned g g' \<longleftrightarrow>
     g_nodes g' = g_nodes g \<and> g_ndim g' = g_ndim g \<and> g_tau g' = g_tau g
     \<and> set (g_edges g') \<subseteq> set (g_edges g)"

lemma bindE_Inr [simp]: "bindE (Inr x) f = f x"
  by (simp add: bindE_def)

lemma bindE_Inl [simp]: "bindE (Inl e) f = Inl e"
  by (simp add: bindE_def)

lemma bindE_eq_Inr:
  "bindE m f = Inr y \<longleftrightarrow> (\<exists>x. m = Inr x \<and> f x = Inr y)"
  by (cases m) simp_all

lemma pruned_refl [simp]: "pruned g g"
  by (simp add: pruned_def)

lemma pruned_trans: "pruned g g1 \<Longrightarrow> pruned g1 g2 \<Longrightarrow> pruned g g2"
  by (auto simp: pruned_def)

lemma remove_edge_pruned: "remove_edge g u v = Inr g' \<Longrightarrow> pruned g g'"
  by (auto simp: remove_edge_def pruned_def split: if_splits)

lemma excludeIndependent_pruned:
  "excludeIndependent indep data np nd nnp nn (g, pp) = Inr (g', pp') \<Longrightarrow> pruned g g'"
  by (auto simp: excludeIndependent_def bindE_eq_Inr split: if_splits dest: remove_edge_pruned)

lemma excludeMediated_pruned:
  "excludeMediated cindep data np nd nnp nn pd (g, pp, pi) = Inr (g', pp', pi') \<Longrightarrow> pruned g g'"
  by (auto simp: excludeMediated_def bindE_eq_Inr split: if_splits dest: remove_edge_pruned)

lemma excludeCommonDriver_step:
  assumes "excludeCommonDriver cindep data deep np nd nn pd (pa # pas) (g, pp, pi) = Inr r"
  shows "\<exists>g1 pp1 pi1. pruned g g1
           \<and> excludeCommonDriver cindep data deep np nd nn pd pas (g1, pp1, pi1) = Inr r"
proof -
  obtain pa_dict where ds: "get_nodes_dict g [pa] = Inr [pa_dict]"
    using assms by (cases "g_ndim g = 0") (simp_all add: get_nodes_dict_def Let_def)
  show ?thesis
  proof (cases "cindep pa_dict nd data (CondNode np)")
    case True
    with assms ds obtain g1 where "remove_edge g pa nn = Inr g1"
      "excludeCommonDriver cindep data deep np nd nn pd pas (g1, removeAll pa pp, removeAll pa pi) = Inr r"
      by (auto simp: bindE_eq_Inr)
    then show ?thesis
      using remove_edge_pruned by blast
  next
    case False
    with assms ds have "excludeCommonDriver cindep data deep np nd nn pd pas (g, pp, pi) = Inr r"
      by (auto simp: bindE_eq_Inr list_minus_set_def split: if_splits)
    then show ?thesis
      using pruned_refl by blast
  qed
qed

lemma excludeCommonDriver_pruned:
  "excludeCommonDriver cindep data deep np nd nn pd pas (g, pp, pi) = Inr (g', pp', pi')
     \<Longrightarrow> pruned g g'"
proof (induction pas arbitrary: g pp pi)
  case Nil
  then show ?case by simp
next
  case (Cons pa pas)
  from excludeCommonDriver_step [OF Cons.prems] obtain g1 pp1 pi1 where
    "pruned g g1"
    "excludeCommonDriver cindep data deep np nd nn pd pas (g1, pp1, pi1) = Inr (g', pp', pi')"
    by blast
  with Cons.IH show ?case
    by (blast intro: pruned_trans)
qed

lemma excludeAlongPaths_pruned:
  "excludeAlongPaths cindep data deep np nd nnp nn (g, pp) = Inr (g', pp') \<Longrightarrow> pruned g g'"
  by (auto simp: excludeAlongPaths_def bindE_eq_Inr Let_def split: if_splits
           dest!: excludeMediated_pruned excludeCommonDriver_pruned intro: pruned_trans)

lemma excludeForAnchor_pruned:
  "excludeForAnchor indep cindep data deep nd nn i (g, pp) = Inr (g', pp') \<Longrightarrow> pruned g g'"
  by (auto simp: excludeForAnchor_def bindE_eq_Inr Let_def
           dest!: excludeIndependent_pruned excludeAlongPaths_pruned intro: pruned_trans)

lemma excludeForAnchors_pruned:
  "excludeForAnchors indep cindep data deep nd nn is (g, pp) = Inr (g', pp') \<Longrightarrow> pruned g g'"
proof (induction "is" arbitrary: g pp)
  case Nil
  then show ?case by simp
next
  case (Cons i "is")
  then show ?case
    by (auto simp: bindE_eq_Inr dest!: excludeForAnchor_pruned intro: pruned_trans)
qed

lemma excludeSpuriousParents_pruned:
  "excludeSpuriousParents indep cindep g data nd deep = Inr g' \<Longrightarrow> pruned g g'"
  by (auto simp: excludeSpuriousParents_def bindE_eq_Inr Let_def dest!: excludeForAnchors_pruned)


lemma excludeParents_pruned:
  "excludeParents indep cindep data deep g tau js = Inr g' \<Longrightarrow> pruned g g'"
proof (induction js arbitrary: g)
  case Nil
  then show ?case by simp
next
  case (Cons j js)
  then show ?case
    by (auto simp: bindE_eq_Inr dest!: excludeSpuriousParents_pruned intro: pruned_trans)
qed

lemma expandLag_tau:
  "expandLag indep cindep data deep ndim g tau = Inr g' \<Longrightarrow> g_tau g' = tau"
  by (auto simp: expandLag_def bindE_eq_Inr pruned_def dest!: excludeParents_pruned)

lemma isConvergence_False_tau:
  "isConvergence g taumin taumax dtau = Inr False \<Longrightarrow> g_tau g < taumin \<or> g_tau g \<le> taumax"
  by (auto simp: isConvergence_def Let_def split: if_splits)

text \<open>
  The \<open>while\<close> loop, lines 45 to 62, with the local variable \<open>tau\<close> beside the graph.
  It returns the graph and the lag at which the convergence check succeeded.
\<close>

function mainLoop ::
  "'p independence \<Rightarrow> 'p conditionalIndependence \<Rightarrow> 'p ndarray \<Rightarrow> bool \<Rightarrow> int \<Rightarrow> int \<Rightarrow> int
     \<Rightarrow> int \<Rightarrow> graph \<Rightarrow> int \<Rightarrow> error + graph \<times> int" where
  "mainLoop indep cindep data deep ndim taumin taumax dtau g tau =
     (case isConvergence g taumin taumax dtau of
        Inl e \<Rightarrow> Inl e
      | Inr converged \<Rightarrow>
          if converged then Inr (g, tau)
          else (case expandLag indep cindep data deep ndim g (tau + 1) of
                  Inl e \<Rightarrow> Inl e
                | Inr g' \<Rightarrow>
                    mainLoop indep cindep data deep ndim taumin taumax dtau g' (tau + 1)))"
  by pat_completeness auto
termination
proof (relation "measure (\<lambda>(indep, cindep, data, deep, ndim, taumin, taumax, dtau, g, tau).
          if g_tau g = tau then nat (max taumin (taumax + 1) - tau)
          else nat (max taumin (taumax + 1) - tau - 1) + 1)", goal_cases)
  case 1
  then show ?case by simp
next
  case (2 indep cindep data deep ndim taumin taumax dtau g tau converged g')
  from 2 have "isConvergence g taumin taumax dtau = Inr False" by simp
  then have "g_tau g < taumin \<or> g_tau g \<le> taumax" by (rule isConvergence_False_tau)
  moreover from 2 have "g_tau g' = tau + 1" by (simp add: expandLag_tau)
  ultimately show ?case by auto
qed


text \<open>
  \<open>findCausalRelationships\<close>.  \<open>npts, ndim = data.shape\<close> raises \<open>ValueError\<close> unless the
  array has two axes.
\<close>

definition findCausalRelationships ::
  "'p independence \<Rightarrow> 'p conditionalIndependence \<Rightarrow> 'p ndarray \<Rightarrow> int \<Rightarrow> int \<Rightarrow> int \<Rightarrow> bool
     \<Rightarrow> error + (int \<rightharpoonup> nodedict list)" where
  "findCausalRelationships indep cindep data dtau taumax taumin deep =
     (case shape data of
        [npts, nvars] \<Rightarrow>
          (let ndim = int nvars;
               g = initialGraph ndim;
               causalDict = Map.empty;
               tau = 0
           in bindE (mainLoop indep cindep data deep ndim taumin taumax dtau g tau)
                (\<lambda>(g', tau'). assembleCausalDict g' tau' (py_range ndim) causalDict))
      | _ \<Rightarrow> Inl ValueError)"

section \<open>Evaluation of ranges and of the initial graph\<close>

lemma py_range_simps:
  "py_range 0 = []" "py_range 1 = [0]" "py_range 2 = [0, 1]"
  by (simp_all add: py_range_def upto.simps)

lemma py_range_Cons: "1 \<le> n \<Longrightarrow> py_range n = 0 # [1..n - 1]"
  by (simp add: py_range_def upto_rec1)

lemma initialGraph_2:
  "initialGraph 2 = \<lparr>g_nodes = [0, 1], g_edges = [], g_ndim = 2, g_tau = 0\<rparr>"
  by (simp add: initialGraph_def DiGraph_def py_range_simps add_node_def get_node_number_def)

lemma fold_add_node:
  "g_tau (fold (\<lambda>j g'. add_node g' (f j)) js g0) = g_tau g0"
  "g_ndim (fold (\<lambda>j g'. add_node g' (f j)) js g0) = g_ndim g0"
  "g_edges (fold (\<lambda>j g'. add_node g' (f j)) js g0) = g_edges g0"
  "set (g_nodes (fold (\<lambda>j g'. add_node g' (f j)) js g0)) = set (g_nodes g0) \<union> f ` set js"
  by (induction js arbitrary: g0) (auto simp: add_node_def)

lemma initialGraph_tau: "g_tau (initialGraph ndim) = 0"
  and initialGraph_ndim: "g_ndim (initialGraph ndim) = ndim"
  and initialGraph_edges: "g_edges (initialGraph ndim) = []"
  and initialGraph_nodes: "set (g_nodes (initialGraph ndim)) = {0..ndim - 1}"
  by (simp_all add: initialGraph_def DiGraph_def Let_def fold_add_node py_range_def
        get_node_number_def)

lemma getPreliminaryParents_initial:
  "getPreliminaryParents (initialGraph 2) 0
     = (\<lparr>g_nodes = [0, 1, 2], g_edges = [], g_ndim = 2, g_tau = 0\<rparr>, Inl TypeError)"
  by (simp add: initialGraph_2 getPreliminaryParents_def Let_def get_node_number_def
        add_node_def predecessors_def list_or_list_def)

lemma findCausalRelationships_first_expansion:
  "1 \<le> taumin \<Longrightarrow>
   findCausalRelationships (\<lambda>a b d. False) (\<lambda>a b d c. False)
     \<lparr>shape = [10, 2], contents = ()\<rparr> dtau taumax taumin False = Inl TypeError"
  by (simp add: findCausalRelationships_def initialGraph_2 isConvergence_def expandLag_def
        py_range_simps getPreliminaryParents_def Let_def get_node_number_def
        add_node_def predecessors_def list_or_list_def)

section \<open>The convergence check as written\<close>

text \<open>
  Whenever the check enters its comparison loop (a window of at least two lags, at least
  one variable), the first call of \<open>predecessors\<close> raises.
\<close>

lemma isConvergence_window_raises:
  assumes "taumin \<le> g_tau g" and "g_tau g \<le> taumax" and "dtau < g_tau g"
    and "2 \<le> dtau" and "1 \<le> g_ndim g"
  shows "isConvergence g taumin taumax dtau = Inl TypeError"
proof -
  from assms(4) have "py_range (dtau - 1) = 0 # [1..dtau - 1 - 1]"
    by (intro py_range_Cons) simp
  moreover from assms(5) have "py_range (g_ndim g) = 0 # [1..g_ndim g - 1]"
    by (rule py_range_Cons)
  ultimately show ?thesis
    using assms(1-3)
    by (simp add: isConvergence_def Let_def predecessors_two_args_def)
qed

text \<open>
  Claim C1 says that \<open>isConvergence\<close> returns a truth value that compares the parent
  sets of consecutive lags in the window.  On the graph \<open>graph_lag3\<close> (lag 3) with
  \<open>taumin = 1\<close>, \<open>taumax = 5\<close> and \<open>dtau = 2\<close> the check reaches its comparison loop,
  where the call \<open>g.predecessors(g, node_number_1)\<close> raises \<open>TypeError\<close>: no truth
  value is returned.
\<close>

theorem isConvergence_raises:
  "isConvergence graph_lag3 1 5 2 = Inl TypeError"
  by (simp add: isConvergence_def graph_lag3_def Let_def py_range_simps predecessors_two_args_def)

section \<open>The final assembly as written\<close>

text \<open>
  The final loop raises as soon as there is a variable to assign, so the function returns
  a dictionary for no array with at least one variable.
\<close>

lemma assembleCausalDict_nonempty_raises:
  "js \<noteq> [] \<Longrightarrow> \<exists>e. assembleCausalDict g tau js causalDict = Inl e"
  by (cases js; cases "getParents g (hd js, tau)") (simp_all add: unbound_name_i_def)

lemma findCausalRelationships_never_returns:
  assumes "shape data = [npts, nvars]" and "1 \<le> nvars"
  shows "\<exists>e. findCausalRelationships indep cindep data dtau taumax taumin deep = Inl e"
proof (cases "mainLoop indep cindep data deep (int nvars) taumin taumax dtau
                (initialGraph (int nvars)) 0")
  case (Inl e)
  with assms(1) show ?thesis
    by (simp add: findCausalRelationships_def)
next
  case (Inr r)
  from assms(2) have "py_range (int nvars) \<noteq> []"
    by (simp add: py_range_Cons)
  from assembleCausalDict_nonempty_raises [OF this, of "fst r" "snd r" Map.empty]
  obtain e where "assembleCausalDict (fst r) (snd r) (py_range (int nvars)) Map.empty = Inl e"
    by blast
  with assms(1) Inr show ?thesis
    by (simp add: findCausalRelationships_def split_beta)
qed

text \<open>
  Claim C2 says that a converged run returns the dictionary of the decoded parents of
  every variable.  The loop of lines 65 to 67 raises \<open>NameError\<close> at its first
  assignment, \<open>causalDict[i]\<close>: on the converged graph \<open>graph_lag3\<close>, and in the whole
  function when the loop is converged at once (two variables, \<open>taumin = 0\<close>,
  \<open>taumax = -1\<close>).
\<close>

theorem final_assembly_raises:
  "assembleCausalDict graph_lag3 3 (py_range (g_ndim graph_lag3)) Map.empty = Inl NameError
   \<and> findCausalRelationships (\<lambda>a b d. False) (\<lambda>a b d c. False)
        \<lparr>shape = [10, 2], contents = ()\<rparr> 1 (- 1) 0 False = Inl NameError"
  by (simp add: graph_lag3_def findCausalRelationships_def initialGraph_2 isConvergence_def
        py_range_simps getParents_def predecessors_def get_nodes_dict_def
        get_node_number_def unbound_name_i_def)

section \<open>The parent proposal as written\<close>

text \<open>
  Claim C3 says that \<open>getPreliminaryParents\<close> returns the shifted parents of the
  previous lag together with the nodes of lag 0.  On the initial graph of two variables
  and \<open>j = 0\<close> it registers node 2 and then raises \<open>TypeError\<close> at
  \<open>ppaset | ppaset1\<close>, the union of two lists: no parent set is returned.
\<close>

theorem getPreliminaryParents_raises:
  "getPreliminaryParents (initialGraph 2) 0
     = (\<lparr>g_nodes = [0, 1, 2], g_edges = [], g_ndim = 2, g_tau = 0\<rparr>, Inl TypeError)
   \<and> (\<exists>e. snd (getPreliminaryParents g j) = Inl e)"
proof
  show "getPreliminaryParents (initialGraph 2) 0
     = (\<lparr>g_nodes = [0, 1, 2], g_edges = [], g_ndim = 2, g_tau = 0\<rparr>, Inl TypeError)"
    by (rule getPreliminaryParents_initial)
  show "\<exists>e. snd (getPreliminaryParents g j) = Inl e"
    by (cases "predecessors (add_node g (get_node_number (j, g_tau g + 1) (g_ndim g) 0))
                  (get_node_number (j, g_tau g) (g_ndim g) 0)")
       (simp_all add: getPreliminaryParents_def Let_def list_or_list_def)
qed

section \<open>Minimum lag above the maximum lag\<close>

text \<open>
  Claim C4, as stated, fails: with \<open>taumin = 10\<close> and \<open>taumax = 3\<close> no configuration
  error is raised before the graph is built.  The graph of the two nodes of lag 0 is
  built, the convergence check answers \<open>False\<close>, the first expansion registers node 2,
  and the exception that ends the run is the \<open>TypeError\<close> of the parent proposal.
\<close>

theorem no_configuration_check_counterexample:
  "g_nodes (initialGraph 2) = [0, 1]
   \<and> isConvergence (initialGraph 2) 10 3 1 = Inr False
   \<and> g_nodes (fst (getPreliminaryParents (initialGraph 2) 0)) = [0, 1, 2]
   \<and> findCausalRelationships (\<lambda>a b d. False) (\<lambda>a b d c. False)
        \<lparr>shape = [10, 2], contents = ()\<rparr> 1 3 10 False = Inl TypeError"
  by (simp add: getPreliminaryParents_initial findCausalRelationships_first_expansion)
     (simp add: initialGraph_2 isConvergence_def)

text \<open>
  Claim C4, amended.  With \<open>taumin > taumax\<close> the convergence check never raises and
  never looks at the structure of the graph: it answers \<open>False\<close> while the lag is below
  \<open>taumin\<close> and \<open>True\<close> from \<open>taumin\<close> on.
\<close>

theorem inverted_lags_convergence:
  "taumax < taumin \<Longrightarrow> isConvergence g taumin taumax dtau = Inr (taumin \<le> g_tau g)"
  by (auto simp: isConvergence_def Let_def)

theorem inverted_lags_convergence_witness:
  "(3::int) < 10 \<and> isConvergence (initialGraph 2) 10 3 1 = Inr False
   \<and> isConvergence graph_lag3 2 1 1 = Inr True"
  using inverted_lags_convergence [of 3 10 "initialGraph 2" 1]
    inverted_lags_convergence [of 1 2 graph_lag3 1]
  by (simp add: initialGraph_2 graph_lag3_def)

section \<open>The hard cutoff\<close>

text \<open>
  Claim C5 says that on every well-formed input the main loop ends and the function
  emits a dictionary within \<open>taumax - taumin + 1\<close> expansions.  On an array of ten
  points of two variables with \<open>dtau = 1\<close>, \<open>taumax = 5\<close> and \<open>taumin = 1\<close> the loop
  ends in its first expansion, with the \<open>TypeError\<close> of \<open>getPreliminaryParents\<close>, and
  the function emits no dictionary.
\<close>

theorem hard_cutoff_raises:
  "mainLoop (\<lambda>a b d. False) (\<lambda>a b d c. False) \<lparr>shape = [10, 2], contents = ()\<rparr> False
     2 1 5 1 (initialGraph 2) 0 = Inl TypeError
   \<and> findCausalRelationships (\<lambda>a b d. False) (\<lambda>a b d c. False)
        \<lparr>shape = [10, 2], contents = ()\<rparr> 1 5 1 False = Inl TypeError"
  by (simp add: findCausalRelationships_first_expansion)
     (simp add: initialGraph_2 isConvergence_def expandLag_def py_range_simps
        getPreliminaryParents_def Let_def get_node_number_def add_node_def predecessors_def
        list_or_list_def)

section \<open>Pruning never adds edges\<close>

lemma excludeSpuriousParents_example:
  "excludeSpuriousParents (\<lambda>a b d. a = (1, 0)) (\<lambda>a b d c. False)
     graph_proposed \<lparr>shape = [10, 2], contents = ()\<rparr> (0, 1) False
   = Inr \<lparr>g_nodes = [0, 1, 2, 3], g_edges = [(0, 2), (0, 3), (1, 3)], g_ndim = 2, g_tau = 1\<rparr>"
  by (simp add: excludeSpuriousParents_def graph_proposed_def Let_def get_node_number_def
        predecessors_def py_range_simps excludeForAnchor_def excludeIndependent_def
        excludeAlongPaths_def excludeMediated_def get_causal_paths_def all_simple_paths_def
        successors_def intersect_def get_nodes_dict_def remove_edge_def eval_nat_numeral)

text \<open>
  Claim C7.  Whenever \<open>excludeSpuriousParents\<close> returns a graph, every edge of that
  graph is an edge of the input graph; in particular the parents of the node of interest
  after pruning are among its parents before.
\<close>

theorem pruning_edge_monotone:
  assumes "excludeSpuriousParents indep cindep g data nodedict deep = Inr g'"
  shows "set (g_edges g') \<subseteq> set (g_edges g)
     \<and> (\<exists>ppaset paset.
           predecessors g (get_node_number nodedict (g_ndim g) 0) = Inr ppaset
         \<and> predecessors g' (get_node_number nodedict (g_ndim g) 0) = Inr paset
         \<and> set paset \<subseteq> set ppaset)"
proof -
  from assms have p: "pruned g g'"
    by (rule excludeSpuriousParents_pruned)
  from assms obtain ppaset where
    pp: "predecessors g (get_node_number nodedict (g_ndim g) 0) = Inr ppaset"
    by (auto simp: excludeSpuriousParents_def Let_def bindE_eq_Inr)
  then have "get_node_number nodedict (g_ndim g) 0 \<in> set (g_nodes g)"
    by (auto simp: predecessors_def split: if_splits)
  with p pp show ?thesis
    by (force simp: pruned_def predecessors_def)
qed

theorem pruning_edge_monotone_witness:
  "excludeSpuriousParents (\<lambda>a b d. a = (1, 0)) (\<lambda>a b d c. False)
     graph_proposed \<lparr>shape = [10, 2], contents = ()\<rparr> (0, 1) False
   = Inr \<lparr>g_nodes = [0, 1, 2, 3], g_edges = [(0, 2), (0, 3), (1, 3)], g_ndim = 2, g_tau = 1\<rparr>
   \<and> set [(0, 2), (0, 3), (1, 3)] \<subseteq> set (g_edges graph_proposed)
   \<and> predecessors graph_proposed 2 = Inr [0, 1]
   \<and> predecessors \<lparr>g_nodes = [0, 1, 2, 3], g_edges = [(0, 2), (0, 3), (1, 3)],
                     g_ndim = 2, g_tau = 1\<rparr> 2 = Inr [0]"
  using pruning_edge_monotone [OF excludeSpuriousParents_example] excludeSpuriousParents_example
  by (simp add: graph_proposed_def predecessors_def)


section \<open>An anchor without a path to the node\<close>

lemma successors_edge: "c \<in> set (successors g u) \<Longrightarrow> (u, c) \<in> set (g_edges g)"
  by (auto simp: successors_def)

lemma simple_paths_from_sound:
  "p \<in> set (simple_paths_from k g visited t) \<Longrightarrow> visited \<noteq> [] \<Longrightarrow> distinct visited
     \<Longrightarrow> t \<notin> set visited \<Longrightarrow> successively (\<lambda>u v. (u, v) \<in> set (g_edges g)) visited
     \<Longrightarrow> (\<exists>q. p = visited @ q \<and> q \<noteq> []) \<and> last p = t \<and> distinct p
         \<and> successively (\<lambda>u v. (u, v) \<in> set (g_edges g)) p"
proof (induction k arbitrary: visited p)
  case 0
  then show ?case by simp
next
  case (Suc k)
  from Suc.prems(1) obtain child where
    child: "child \<in> set (successors g (last visited))" and
    p: "p \<in> set (if child = t then [visited @ [t]]
                  else if child \<in> set visited then []
                  else simple_paths_from k g (visited @ [child]) t)"
    by auto
  from child have edge: "(last visited, child) \<in> set (g_edges g)"
    by (rule successors_edge)
  show ?case
  proof (cases "child = t")
    case True
    with p have "p = visited @ [t]" by simp
    with Suc.prems edge True show ?thesis
      by (simp add: successively_append_iff)
  next
    case False
    with p have fresh: "child \<notin> set visited"
      and rec: "p \<in> set (simple_paths_from k g (visited @ [child]) t)"
      by (auto split: if_splits)
    from Suc.prems edge fresh False
    have "(\<exists>q. p = (visited @ [child]) @ q \<and> q \<noteq> []) \<and> last p = t \<and> distinct p
         \<and> successively (\<lambda>u v. (u, v) \<in> set (g_edges g)) p"
      by (intro Suc.IH [OF rec]) (simp_all add: successively_append_iff)
    then show ?thesis by auto
  qed
qed

lemma get_causal_paths_no_path:
  assumes "s \<in> set (g_nodes g)" "t \<in> set (g_nodes g)" "s \<noteq> t"
    and "\<not> (\<exists>p. simple_path g s t p)"
  shows "get_causal_paths g s t = Inr []"
proof -
  have "simple_paths_from (length (g_nodes g)) g [s] t = []"
  proof (rule ccontr)
    assume "simple_paths_from (length (g_nodes g)) g [s] t \<noteq> []"
    then obtain p where "p \<in> set (simple_paths_from (length (g_nodes g)) g [s] t)"
      by (cases "simple_paths_from (length (g_nodes g)) g [s] t") auto
    from simple_paths_from_sound [OF this] assms(3)
    have "(\<exists>q. p = [s] @ q \<and> q \<noteq> [])" "last p = t" "distinct p"
      "successively (\<lambda>u v. (u, v) \<in> set (g_edges g)) p"
      by simp_all
    then have "simple_path g s t p"
      by (auto simp: simple_path_def Suc_le_eq)
    with assms(4) show False by blast
  qed
  with assms(1,2) show ?thesis
    by (simp add: get_causal_paths_def all_simple_paths_def)
qed

lemma excludeAlongPaths_no_path:
  assumes "get_causal_paths g node_number_p node_number = Inr []"
  shows "excludeAlongPaths cindep data deep nodedict_p nodedict node_number_p node_number
           (g, ppaset) = Inr (g, ppaset)"
  using assms
  by (simp add: excludeAlongPaths_def intersect_def get_nodes_dict_def excludeMediated_def)

lemma simple_path_needs_edge: "simple_path g s t p \<Longrightarrow> g_edges g \<noteq> []"
proof -
  assume sp: "simple_path g s t p"
  then obtain x y zs where "p = x # y # zs"
    by (cases p; cases "tl p") (auto simp: simple_path_def)
  with sp show ?thesis by (auto simp: simple_path_def)
qed

text \<open>
  Claim C9.  In the pass for a node \<open>T\<close> and the anchor \<open>A = (i, 0)\<close>, let the
  independence test leave the graph \<open>g1\<close>.  When \<open>g1\<close> has no directed simple path from
  \<open>A\<close> to \<open>T\<close>, the list of path nodes is empty, the conditional steps return the graph
  and the parent set as they got them, raising nothing, and the whole pass for this
  anchor is the independence test alone.
\<close>

theorem no_path_is_noop:
  assumes "excludeIndependent indep data (i, 0) nodedict node_number_p node_number (g, ppaset)
             = Inr (g1, ppaset1)"
    and "node_number_p = get_node_number (i, 0) (g_ndim g) 0"
    and "node_number_p \<in> set (g_nodes g1)" and "node_number \<in> set (g_nodes g1)"
    and "node_number_p \<noteq> node_number"
    and "\<not> (\<exists>p. simple_path g1 node_number_p node_number p)"
  shows "get_causal_paths g1 node_number_p node_number = Inr []
     \<and> excludeAlongPaths cindep data deep (i, 0) nodedict node_number_p node_number (g1, ppaset1)
         = Inr (g1, ppaset1)
     \<and> excludeForAnchor indep cindep data deep nodedict node_number i (g, ppaset)
         = Inr (g1, ppaset1)"
proof -
  have paths: "get_causal_paths g1 node_number_p node_number = Inr []"
    using assms(3-6) by (rule get_causal_paths_no_path)
  then have along: "excludeAlongPaths cindep data deep (i, 0) nodedict node_number_p node_number
      (g1, ppaset1) = Inr (g1, ppaset1)"
    by (rule excludeAlongPaths_no_path)
  with assms(1,2) have "excludeForAnchor indep cindep data deep nodedict node_number i (g, ppaset)
         = Inr (g1, ppaset1)"
    by (simp add: excludeForAnchor_def Let_def)
  with paths along show ?thesis by simp
qed

theorem no_path_is_noop_witness:
  "excludeForAnchor (\<lambda>a b d. True) (\<lambda>a b d c. False) \<lparr>shape = [10, 1], contents = ()\<rparr> False
     (0, 1) 1 0 (graph_lag1, [0])
   = Inr (\<lparr>g_nodes = [0, 1], g_edges = [], g_ndim = 1, g_tau = 1\<rparr>, [])
   \<and> get_causal_paths \<lparr>g_nodes = [0, 1], g_edges = [], g_ndim = 1, g_tau = 1\<rparr> 0 1 = Inr []"
proof -
  let ?g1 = "\<lparr>g_nodes = [0, 1], g_edges = [], g_ndim = 1, g_tau = 1\<rparr>"
  let ?data = "\<lparr>shape = [10, 1], contents = ()\<rparr>"
  have a: "excludeIndependent (\<lambda>a b d. True) ?data (0, 0) (0, 1) 0 1 (graph_lag1, [0])
             = Inr (?g1, [])"
    by (simp add: excludeIndependent_def remove_edge_def graph_lag1_def)
  have b: "(0::int) = get_node_number (0, 0) (g_ndim graph_lag1) 0"
    by (simp add: get_node_number_def)
  have c: "\<not> (\<exists>p. simple_path ?g1 0 1 p)"
    using simple_path_needs_edge [of ?g1 0 1] by auto
  from no_path_is_noop [OF a b _ _ _ c, of "\<lambda>a b d c. False" False]
  show ?thesis by simp
qed



section \<open>The nodes of lag 0\<close>

lemma add_node_simps:
  "g_ndim (add_node g n) = g_ndim g" "g_tau (add_node g n) = g_tau g"
  "g_edges (add_node g n) = g_edges g"
  "set (g_nodes (add_node g n)) = insert n (set (g_nodes g))"
  by (auto simp: add_node_def)

lemma add_edge_simps:
  "g_ndim (add_edge g u v) = g_ndim g" "g_tau (add_edge g u v) = g_tau g"
  "set (g_edges (add_edge g u v)) = insert (u, v) (set (g_edges g))"
  "set (g_nodes (add_edge g u v)) = insert u (insert v (set (g_nodes g)))"
  by (auto simp: add_edge_def Let_def add_node_simps)

lemma fold_add_edge:
  "g_ndim (fold (\<lambda>pa g'. add_edge g' pa n) paset g) = g_ndim g"
  "set (g_nodes (fold (\<lambda>pa g'. add_edge g' pa n) paset g))
     = set (g_nodes g) \<union> set paset \<union> (if paset = [] then {} else {n})"
  "set (g_edges (fold (\<lambda>pa g'. add_edge g' pa n) paset g))
     = set (g_edges g) \<union> (\<lambda>pa. (pa, n)) ` set paset"
  by (induction paset arbitrary: g) (auto simp: add_edge_simps)

lemma graphStep_anchored:
  assumes "1 \<le> nd" and "anchored nd g" and "graphStep indep cindep data deep g g'"
  shows "anchored nd g' \<and> set (g_nodes g) \<subseteq> set (g_nodes g')"
  using assms(3)
proof cases
  case (register j)
  with assms(2) show ?thesis
    by (auto simp: anchored_def getPreliminaryParents_def Let_def add_node_simps)
next
  case (propose j tau paset)
  from assms(1,2) propose(2,3,4) have "nd \<le> tau * nd"
    using mult_right_mono [of 1 tau nd] by (simp add: anchored_def)
  with propose(2) have "nd \<le> get_node_number (j, tau) nd 0"
    by (simp add: get_node_number_def)
  with assms(2) propose(1) show ?thesis
    by (auto simp: anchored_def updateGraphByParents_def Let_def fold_add_edge)
next
  case (advance tau)
  with assms(2) show ?thesis
    by (simp add: anchored_def)
next
  case (prune nodedict)
  then have "pruned g g'" by (rule excludeSpuriousParents_pruned)
  with assms(2) show ?thesis
    by (auto simp: anchored_def pruned_def)
qed

lemma graphSteps_anchored:
  assumes "1 \<le> nd" and "rtranclp (graphStep indep cindep data deep) g g'" and "anchored nd g"
  shows "anchored nd g' \<and> set (g_nodes g) \<subseteq> set (g_nodes g')"
  using assms(2,3)
proof (induction rule: rtranclp_induct)
  case base
  then show ?case by simp
next
  case (step g1 g2)
  with graphStep_anchored [OF assms(1), of g1 indep cindep data deep g2] show ?case
    by auto
qed

lemma initialGraph_anchored: "anchored nd (initialGraph nd)"
  by (simp add: anchored_def initialGraph_ndim initialGraph_nodes initialGraph_edges)

lemma anchored_anchors:
  assumes "1 \<le> nd" and "anchored nd g"
  shows "anchors g = {0..nd - 1}" and "\<forall>(u, v) \<in> set (g_edges g). v \<notin> anchors g"
proof -
  from assms have lag0: "n div g_ndim g = 0 \<longleftrightarrow> 0 \<le> n \<and> n < nd" for n
    by (auto simp: anchored_def zdiv_eq_0_iff)
  with assms(2) show "anchors g = {0..nd - 1}"
    by (auto simp: anchors_def anchored_def)
  from lag0 assms(2) show "\<forall>(u, v) \<in> set (g_edges g). v \<notin> anchors g"
    by (fastforce simp: anchors_def anchored_def)
qed

lemma graph_proposed_steps:
  "rtranclp (graphStep indep cindep data deep) (initialGraph 2) graph_proposed"
proof -
  let ?step = "graphStep indep cindep data deep"
  let ?g1 = "\<lparr>g_nodes = [0, 1, 2], g_edges = [], g_ndim = 2, g_tau = 0\<rparr>"
  let ?g2 = "\<lparr>g_nodes = [0, 1, 2], g_edges = [(0, 2), (1, 2)], g_ndim = 2, g_tau = 0\<rparr>"
  let ?g3 = "\<lparr>g_nodes = [0, 1, 2, 3], g_edges = [(0, 2), (1, 2)], g_ndim = 2, g_tau = 0\<rparr>"
  let ?g4 = "\<lparr>g_nodes = [0, 1, 2, 3], g_edges = [(0, 2), (1, 2), (0, 3), (1, 3)],
              g_ndim = 2, g_tau = 0\<rparr>"
  have "?step (initialGraph 2) ?g1"
    using graphStep.register [of 0 "initialGraph 2" indep cindep data deep]
    by (simp add: getPreliminaryParents_initial) (simp add: initialGraph_2)
  moreover have "?step ?g1 ?g2"
    using graphStep.propose [of 0 ?g1 1 indep cindep data deep "[0, 1]"]
    by (simp add: updateGraphByParents_def get_node_number_def add_edge_def add_node_def)
  moreover have "?step ?g2 ?g3"
    using graphStep.register [of 1 ?g2 indep cindep data deep]
    by (simp add: getPreliminaryParents_def Let_def get_node_number_def add_node_def)
  moreover have "?step ?g3 ?g4"
    using graphStep.propose [of 1 ?g3 1 indep cindep data deep "[0, 1]"]
    by (simp add: updateGraphByParents_def get_node_number_def add_edge_def add_node_def)
  moreover have "?step ?g4 graph_proposed"
    using graphStep.advance [of indep cindep data deep ?g4 1]
    by (simp add: graph_proposed_def)
  ultimately show ?thesis
    by (meson rtranclp.rtrancl_into_rtrancl rtranclp.rtrancl_refl)
qed

text \<open>
  Claim C8.  In every graph that the steps of \<open>findCausalRelationships\<close> reach from
  the initial graph of \<open>nd \<ge> 1\<close> variables, and after any further steps, the nodes of
  lag 0 are exactly the \<open>nd\<close> nodes \<open>0, ..., nd - 1\<close>, no edge ends in one of them, and
  every node that was there is still there.
\<close>

theorem anchor_invariance:
  assumes "1 \<le> nd"
    and "rtranclp (graphStep indep cindep data deep) (initialGraph nd) g"
    and "rtranclp (graphStep indep cindep data deep) g g'"
  shows "anchors g' = {0..nd - 1} \<and> card (anchors g') = nat nd
     \<and> (\<forall>(u, v) \<in> set (g_edges g'). v \<notin> anchors g')
     \<and> set (g_nodes g) \<subseteq> set (g_nodes g')"
proof -
  from graphSteps_anchored [OF assms(1,2) initialGraph_anchored]
  have g: "anchored nd g" by simp
  from graphSteps_anchored [OF assms(1,3) g]
  have g': "anchored nd g'" and nodes: "set (g_nodes g) \<subseteq> set (g_nodes g')" by simp_all
  from anchored_anchors [OF assms(1) g'] nodes show ?thesis
    by simp
qed


theorem anchor_invariance_witness:
  "anchors \<lparr>g_nodes = [0, 1, 2, 3], g_edges = [(0, 2), (0, 3), (1, 3)], g_ndim = 2, g_tau = 1\<rparr>
     = {0..1}
   \<and> card (anchors \<lparr>g_nodes = [0, 1, 2, 3], g_edges = [(0, 2), (0, 3), (1, 3)],
                     g_ndim = 2, g_tau = 1\<rparr>) = 2
   \<and> 2 \<notin> anchors \<lparr>g_nodes = [0, 1, 2, 3], g_edges = [(0, 2), (0, 3), (1, 3)],
                       g_ndim = 2, g_tau = 1\<rparr>
   \<and> 3 \<notin> anchors \<lparr>g_nodes = [0, 1, 2, 3], g_edges = [(0, 2), (0, 3), (1, 3)],
                       g_ndim = 2, g_tau = 1\<rparr>
   \<and> set (g_nodes graph_proposed) \<subseteq> {0, 1, 2, 3}"
proof -
  let ?indep = "\<lambda>(a::nodedict) (b::nodedict) (d::unit ndarray). a = (1, 0)"
  let ?cindep = "\<lambda>(a::nodedict) (b::nodedict) (d::unit ndarray) (c::conditionset). False"
  let ?data = "\<lparr>shape = [10, 2], contents = ()\<rparr>"
  let ?g' = "\<lparr>g_nodes = [0, 1, 2, 3], g_edges = [(0, 2), (0, 3), (1, 3)], g_ndim = 2, g_tau = 1\<rparr>"
  have "graphStep ?indep ?cindep ?data False graph_proposed ?g'"
    using excludeSpuriousParents_example by (rule graphStep.prune)
  then have "rtranclp (graphStep ?indep ?cindep ?data False) graph_proposed ?g'"
    by (rule r_into_rtranclp)
  from anchor_invariance [OF _ graph_proposed_steps this]
  show ?thesis by simp
qed


section \<open>Round trip of the node encoding\<close>

lemma decode_encode:
  assumes "1 \<le> nd" "0 \<le> v" "v < nd"
  shows "(t * nd + v) mod nd = v" and "(t * nd + v) div nd = (t::int)"
  using assms by simp_all

text \<open>
  Claim C6.  For a graph of \<open>ndim \<ge> 1\<close> variables, every variable index
  \<open>0 \<le> v < ndim\<close> and every time lag \<open>t \<ge> 0\<close>, decoding the identifier
  \<open>t * ndim + v\<close> with \<open>get_nodes_dict\<close> (\<open>id mod ndim\<close>, \<open>id div ndim\<close>) gives back
  exactly \<open>(v, t)\<close>.
\<close>

theorem encode_decode_roundtrip:
  assumes "1 \<le> g_ndim g" and "0 \<le> v" and "v < g_ndim g" and "0 \<le> t"
  shows "get_nodes_dict g [get_node_number (v, t) (g_ndim g) 0] = Inr [(v, t)]"
  using assms by (simp add: get_nodes_dict_def get_node_number_def)

theorem encode_decode_roundtrip_witness:
  "get_nodes_dict (DiGraph 3 0) [get_node_number (2, 4) 3 0] = Inr [(2, 4)]
   \<and> get_node_number (2, 4) 3 0 = 14"
  using encode_decode_roundtrip [of "DiGraph 3 0" 2 4]
  by (simp add: DiGraph_def get_node_number_def)

section \<open>The dimension check of \<open>info\<close>\<close>

text \<open>
  Claim C10.  The constructor raises its \<open>Exception\<close> when the array has more than
  three or fewer than one axes.  For one, two or three axes the check passes: the
  constructor goes on to the computations with the number of axes and, when they return,
  yields the object with that number in \<open>self.ndim\<close>.  So, when the computations do not
  raise, the constructor raises exactly for more than three or fewer than one axes; the
  check itself raises exactly then in any case.
\<close>

theorem info_init_dimension_check:
  "(length (shape pdfs) > 3 \<or> length (shape pdfs) < 1 \<longrightarrow>
      info_init computeInfo pdfs b st
        = Inl (Exception ''The number of variables should be less than or equal to 3.''))
   \<and> (1 \<le> length (shape pdfs) \<and> length (shape pdfs) \<le> 3 \<longrightarrow>
        info_init computeInfo pdfs b st
          = bindE (computeInfo (length (shape pdfs)) pdfs b st) (\<lambda>r.
              Inr \<lparr>self_base = b, self_ndim = length (shape pdfs), self_allInfo = r\<rparr>))
   \<and> ((\<exists>r. computeInfo (length (shape pdfs)) pdfs b st = Inr r) \<longrightarrow>
        ((\<exists>e. info_init computeInfo pdfs b st = Inl e)
           \<longleftrightarrow> (length (shape pdfs) > 3 \<or> length (shape pdfs) < 1)))
   \<and> ((\<exists>e. info_check_ndim pdfs = Inl e) \<longleftrightarrow> (length (shape pdfs) > 3 \<or> length (shape pdfs) < 1))
   \<and> (length (shape pdfs) \<in> {1, 2, 3} \<longrightarrow> info_check_ndim pdfs = Inr (length (shape pdfs)))
   \<and> (\<forall>obj. info_init computeInfo pdfs b st = Inr obj \<longrightarrow> self_ndim obj = length (shape pdfs))"
proof (intro conjI)
  show "length (shape pdfs) > 3 \<or> length (shape pdfs) < 1 \<longrightarrow>
      info_init computeInfo pdfs b st
        = Inl (Exception ''The number of variables should be less than or equal to 3.'')"
    by (auto simp: info_check_ndim_def info_init_def Let_def)
  show "1 \<le> length (shape pdfs) \<and> length (shape pdfs) \<le> 3 \<longrightarrow>
        info_init computeInfo pdfs b st
          = bindE (computeInfo (length (shape pdfs)) pdfs b st) (\<lambda>r.
              Inr \<lparr>self_base = b, self_ndim = length (shape pdfs), self_allInfo = r\<rparr>)"
    by (auto simp: info_check_ndim_def info_init_def Let_def)
  show "(\<exists>r. computeInfo (length (shape pdfs)) pdfs b st = Inr r) \<longrightarrow>
        ((\<exists>e. info_init computeInfo pdfs b st = Inl e)
           \<longleftrightarrow> (length (shape pdfs) > 3 \<or> length (shape pdfs) < 1))"
    by (auto simp: info_check_ndim_def info_init_def Let_def)
  show "(\<exists>e. info_check_ndim pdfs = Inl e)
          \<longleftrightarrow> (length (shape pdfs) > 3 \<or> length (shape pdfs) < 1)"
    by (auto simp: info_check_ndim_def Let_def)
  show "length (shape pdfs) \<in> {1, 2, 3} \<longrightarrow> info_check_ndim pdfs = Inr (length (shape pdfs))"
    by (auto simp: info_check_ndim_def Let_def)
  show "\<forall>obj. info_init computeInfo pdfs b st = Inr obj \<longrightarrow> self_ndim obj = length (shape pdfs)"
    by (auto simp: info_check_ndim_def info_init_def Let_def bindE_eq_Inr)
qed

theorem info_init_dimension_check_witness:
  "info_init (\<lambda>n p b st. Inr n) \<lparr>shape = [4, 5], contents = ()\<rparr> (2::nat) False
       = Inr \<lparr>self_base = 2, self_ndim = 2, self_allInfo = 2\<rparr>
   \<and> info_init (\<lambda>n p b st. Inr n) \<lparr>shape = [2, 2, 2, 2], contents = ()\<rparr> (2::nat) False
       = Inl (Exception ''The number of variables should be less than or equal to 3.'')
   \<and> info_init (\<lambda>n p b st. Inr n) \<lparr>shape = [], contents = ()\<rparr> (2::nat) False
       = Inl (Exception ''The number of variables should be less than or equal to 3.'')
   \<and> info_check_ndim \<lparr>shape = [4, 5], contents = ()\<rparr> = Inr 2
   \<and> (\<exists>e. info_check_ndim \<lparr>shape = [2, 2, 2, 2], contents = ()\<rparr> = Inl e)
   \<and> (\<exists>e. info_check_ndim \<lparr>shape = [], contents = ()\<rparr> = Inl e)"
  using info_init_dimension_check [of "\<lparr>shape = [4, 5], contents = ()\<rparr>" "\<lambda>n p b st. Inr n" "2::nat" False]
    info_init_dimension_check [of "\<lparr>shape = [2, 2, 2, 2], contents = ()\<rparr>" "\<lambda>n p b st. Inr n" "2::nat" False]
    info_init_dimension_check [of "\<lparr>shape = [], contents = ()\<rparr>" "\<lambda>n p b st. Inr n" "2::nat" False]
  by simp

end
